theory Spec2Isabelle
  imports Main
begin

section \<open>JavaScript values, strings and errors\<close>

text \<open>
  The values the connection manager stores in string-typed slots. A property that was
  never assigned, or a parameter that the caller left out, is \<open>Undefined\<close>; the
  constructor initialises several fields to \<open>Null\<close>. Numbers are the naturals
  (ports, counts, milliseconds). Strings are ASCII character lists.
\<close>

datatype jsval = Undefined | Null | Str string | Num nat | Bool bool

text \<open>
  \<open>Error m\<close> is \<open>new Error(m)\<close>; \<open>TypeError\<close> and \<open>ReferenceError\<close> are
  raised by the language itself and carry the expression that failed; \<open>RangeError\<close>
  is raised by the socket for a port it refuses; \<open>External\<close> is an error handed
  over by a collaborator (the streaming client, the HTTP helper).
\<close>

datatype error =
  Error string | TypeError string | ReferenceError string | RangeError string | External string

definition ConnectionTimeout :: error where
  "ConnectionTimeout = Error ''Connection timeout has reached''"

definition ConnectionDead :: error where
  "ConnectionDead = Error ''Connection is dead''"

fun show_nat :: "nat \<Rightarrow> string" where
  "show_nat n =
     (if n < 10 then [char_of (48 + n)]
      else show_nat (n div 10) @ [char_of (48 + n mod 10)])"

declare show_nat.simps [simp del]

text \<open>Conversion to a string, as a template literal or \<open>+\<close> with a string does it.\<close>

fun toString :: "jsval \<Rightarrow> string" where
  "toString Undefined = ''undefined''"
| "toString Null = ''null''"
| "toString (Str s) = s"
| "toString (Num n) = show_nat n"
| "toString (Bool b) = (if b then ''true'' else ''false'')"

definition startsWith :: "string \<Rightarrow> string \<Rightarrow> bool" where
  "startsWith s p = (take (length p) s = p)"

text \<open>
  \<open>s.split(sep)\<close> for a non-empty separator: the segments between the occurrences of
  \<open>sep\<close>, found from left to right. \<open>acc\<close> is the current segment, reversed.
\<close>

fun split_from :: "string \<Rightarrow> string \<Rightarrow> string \<Rightarrow> string list" where
  "split_from sep acc [] = [rev acc]"
| "split_from sep acc (c # cs) =
     (if startsWith (c # cs) sep
      then rev acc # split_from sep [] (drop (length sep - 1) cs)
      else split_from sep (c # acc) cs)"

definition js_split :: "string \<Rightarrow> string \<Rightarrow> string list" where
  "js_split s sep = (if sep = [] then map (\<lambda>c. [c]) s else split_from sep [] s)"

text \<open>\<open>xs[i]\<close>: reading past the end of an array gives \<open>undefined\<close>.\<close>

definition index :: "string list \<Rightarrow> nat \<Rightarrow> jsval" where
  "index xs i = (if i < length xs then Str (xs ! i) else Undefined)"

text \<open>
  \<open>String.prototype.toLowerCase\<close> on ASCII: the letters \<open>A\<close> to \<open>Z\<close> (codes 65 to
  90) move to \<open>a\<close> to \<open>z\<close>, every other character stays.
\<close>

definition lower_char :: "char \<Rightarrow> char" where
  "lower_char c =
     (if 65 \<le> (of_char c :: nat) \<and> (of_char c :: nat) \<le> 90
      then char_of ((of_char c :: nat) + 32) else c)"

definition toLowerCase :: "string \<Rightarrow> string" where
  "toLowerCase s = map lower_char s"

section \<open>The connection manager: class Memphis\<close>

subsection \<open>State\<close>

text \<open>What the manager writes on its control-plane socket.\<close>

datatype payload =
    Handshake jsval jsval jsval  \<comment> \<open>username, broker_creds, connection_id\<close>
  | ResendAccessToken            \<comment> \<open>resend_access_token: true\<close>

text \<open>
  \<open>net.Socket\<close> is a collaborator: the model keeps the listeners registered on it and
  a log of the calls made on it. A \<open>data\<close> listener and a \<open>connect\<close> callback are
  closures of one \<open>connect\<close> call; they are identified by the number of the promise
  that call returned, the \<open>connect\<close> callback also holds the \<open>username\<close> and
  \<open>connectionToken\<close> parameters it captured. The \<open>error\<close> and \<open>close\<close>
  listeners are registered once, by the constructor.
\<close>

record socket =
  dataListeners :: "nat list"
  errorListener :: bool
  closeListener :: bool
  connectListeners :: "(nat \<times> jsval \<times> jsval) list"
  connectCalls :: "(nat \<times> jsval) list"  \<comment> \<open>port, host\<close>
  written :: "payload list"
  destroyCalls :: nat

text \<open>The options object handed to \<open>broker.connect\<close>.\<close>

record broker_opts =
  servers :: string
  opt_reconnect :: bool
  maxReconnectAttempts :: nat
  reconnectTimeWait :: nat
  timeout :: nat
  token :: jsval

record memphis =
  isConnectionActive :: bool
  connectionId :: jsval
  accessToken :: jsval
  host :: jsval
  port :: nat
  username :: jsval
  brokerHost :: jsval
  brokerPort :: nat
  connectionToken :: jsval
  accessTokenTimeout :: "nat option"  \<comment> \<open>a timer handle, or null\<close>
  client :: socket
  reconnectAttempts :: nat
  reconnect :: bool
  maxReconnect :: nat
  reconnectIntervalMs :: nat
  timeoutMs :: nat
  brokerConnection :: "broker_opts option"

text \<open>
  The parameter object of \<open>connect\<close>. A property with a default is \<open>None\<close> when the
  caller leaves it out.
\<close>

record config =
  cfg_host :: jsval
  cfg_port :: "nat option"
  cfg_username :: jsval
  cfg_brokerHost :: jsval
  cfg_brokerPort :: "nat option"
  cfg_connectionToken :: jsval
  cfg_reconnect :: "bool option"
  cfg_maxReconnect :: "nat option"
  cfg_reconnectIntervalMs :: "nat option"
  cfg_timeoutMs :: "nat option"

text \<open>
  The event loop around the manager: the promises returned by the calls of
  \<open>connect\<close> (in call order), the pending timers (handle, delay passed to
  \<open>setTimeout\<close>, task) and the calls of \<open>broker.connect\<close> still awaited (with the
  promise of the \<open>connect\<close> call whose \<open>data\<close> listener made them).
\<close>

datatype promise = Pending | Fulfilled | Rejected error

datatype timer =
    ConnectTimeout nat bool nat  \<comment> \<open>promise, and the parameters reconnect and maxReconnect\<close>
  | RefreshAccessToken
  | Reconnect

record world =
  mem :: memphis
  promises :: "promise list"
  timers :: "(nat \<times> nat \<times> timer) list"
  nextTimer :: nat
  brokerConnects :: "(nat \<times> broker_opts) list"

text \<open>The response to the handshake, after \<open>JSON.parse\<close>.\<close>

record auth_response =
  connection_id :: jsval
  access_token :: jsval
  access_token_exp :: nat

subsection \<open>Promises and timers\<close>

text \<open>A promise is settled once: \<open>resolve\<close> and \<open>reject\<close> on a settled promise do nothing.\<close>

definition settle :: "nat \<Rightarrow> promise \<Rightarrow> world \<Rightarrow> world" where
  "settle p v w =
     (if p < length (promises w) \<and> promises w ! p = Pending
      then w\<lparr>promises := (promises w)[p := v]\<rparr> else w)"

definition resolve :: "nat \<Rightarrow> world \<Rightarrow> world" where
  "resolve p w = settle p Fulfilled w"

definition reject :: "nat \<Rightarrow> error \<Rightarrow> world \<Rightarrow> world" where
  "reject p e w = settle p (Rejected e) w"

definition setTimeout :: "nat \<Rightarrow> timer \<Rightarrow> world \<Rightarrow> nat \<times> world" where
  "setTimeout delay task w =
     (nextTimer w,
      w\<lparr>timers := timers w @ [(nextTimer w, delay, task)], nextTimer := nextTimer w + 1\<rparr>)"

definition clearTimeout :: "nat option \<Rightarrow> world \<Rightarrow> world" where
  "clearTimeout h w = w\<lparr>timers := filter (\<lambda>t. Some (fst t) \<noteq> h) (timers w)\<rparr>"

definition client_write :: "payload \<Rightarrow> world \<Rightarrow> world" where
  "client_write x w =
     w\<lparr>mem := (mem w)\<lparr>client := (client (mem w))\<lparr>written := written (client (mem w)) @ [x]\<rparr>\<rparr>\<rparr>"

subsection \<open>constructor\<close>

definition new_socket :: socket where
  "new_socket =
     \<lparr>dataListeners = [], errorListener = False, closeListener = False,
      connectListeners = [], connectCalls = [], written = [], destroyCalls = 0\<rparr>"

definition Memphis :: memphis where
  "Memphis =
     \<lparr>isConnectionActive = False, connectionId = Null, accessToken = Null, host = Null,
      port = 9000, username = Null, brokerHost = Null, brokerPort = 7766,
      connectionToken = Null, accessTokenTimeout = None,
      client = new_socket\<lparr>errorListener := True, closeListener := True\<rparr>,
      reconnectAttempts = 0, reconnect = True, maxReconnect = 3,
      reconnectIntervalMs = 200, timeoutMs = 15000, brokerConnection = None\<rparr>"

definition new_world :: world where
  "new_world = \<lparr>mem = Memphis, promises = [], timers = [], nextTimer = 0, brokerConnects = []\<rparr>"

subsection \<open>_normalizeHost\<close>

text \<open>
  \<open>host.startsWith\<close> on a value that is not a string raises a \<open>TypeError\<close>.
  \<open>host.split(p)[1]\<close> is the segment between the first and the second occurrence of
  \<open>p\<close>.
\<close>

definition normalizeHost :: "jsval \<Rightarrow> error + jsval" where
  "normalizeHost h =
     (case h of
        Str s \<Rightarrow>
          (if startsWith s ''http://'' then Inr (index (js_split s ''http://'') 1)
           else if startsWith s ''https://'' then Inr (index (js_split s ''https://'') 1)
           else Inr (Str s))
      | _ \<Rightarrow> Inl (TypeError ''host.startsWith''))"

subsection \<open>connect\<close>

text \<open>
  The executor of the promise runs at once. It starts the timeout timer, stores the
  parameters and calls \<open>client.connect\<close>. An exception in the executor rejects the
  promise and leaves the assignments after it undone. \<open>client.connect\<close> registers
  its callback for the \<open>connect\<close> event and then checks the port: a port above
  65535 raises a \<open>RangeError\<close> in the call, which is the last statement of the
  executor.
\<close>

definition connect_executor :: "nat \<Rightarrow> config \<Rightarrow> world \<Rightarrow> world" where
  "connect_executor p cfg w =
     (case normalizeHost (cfg_host cfg) of
        Inl e \<Rightarrow> reject p e w
      | Inr h \<Rightarrow>
         (let w1 = w\<lparr>mem := (mem w)\<lparr>host := Str (toString h @ ''/tcp'')\<rparr>\<rparr> in
          case normalizeHost (cfg_brokerHost cfg) of
            Inl e \<Rightarrow> reject p e w1
          | Inr b \<Rightarrow>
             (let port' = (case cfg_port cfg of None \<Rightarrow> 9000 | Some n \<Rightarrow> n);
                  maxReconnect' = (case cfg_maxReconnect cfg of None \<Rightarrow> 3 | Some n \<Rightarrow> n);
                  m = (mem w1)
                    \<lparr>brokerHost := b,
                     port := port',
                     brokerPort := (case cfg_brokerPort cfg of None \<Rightarrow> 7766 | Some n \<Rightarrow> n),
                     username := cfg_username cfg,
                     connectionToken := cfg_connectionToken cfg,
                     reconnect := (case cfg_reconnect cfg of None \<Rightarrow> True | Some r \<Rightarrow> r),
                     maxReconnect := (if maxReconnect' > 9 then 9 else maxReconnect'),
                     reconnectIntervalMs :=
                       (case cfg_reconnectIntervalMs cfg of None \<Rightarrow> 200 | Some n \<Rightarrow> n),
                     timeoutMs := (case cfg_timeoutMs cfg of None \<Rightarrow> 15000 | Some n \<Rightarrow> n)\<rparr>;
                  w2 = w1\<lparr>mem := m\<lparr>client := (client m)
                     \<lparr>connectCalls := connectCalls (client m) @ [(port', host m)],
                      connectListeners := connectListeners (client m) @
                        [(p, cfg_username cfg, cfg_connectionToken cfg)]\<rparr>\<rparr>\<rparr>
              in if port' > 65535 then reject p (RangeError ''port'') w2 else w2)))"

definition connect :: "config \<Rightarrow> world \<Rightarrow> nat \<times> world" where
  "connect cfg w =
     (let p = length (promises w);
          w1 = snd (setTimeout (case cfg_timeoutMs cfg of None \<Rightarrow> 15000 | Some n \<Rightarrow> n)
                 (ConnectTimeout p
                    (case cfg_reconnect cfg of None \<Rightarrow> True | Some r \<Rightarrow> r)
                    (case cfg_maxReconnect cfg of None \<Rightarrow> 3 | Some n \<Rightarrow> n))
                 (w\<lparr>promises := promises w @ [Pending]\<rparr>))
      in (p, connect_executor p cfg w1))"

text \<open>The timer started by \<open>connect\<close>, when it fires.\<close>

definition connect_timeout :: "nat \<Rightarrow> bool \<Rightarrow> nat \<Rightarrow> world \<Rightarrow> world" where
  "connect_timeout p reconnect' maxReconnect' w =
     (if \<not> reconnect' \<or> reconnectAttempts (mem w) = maxReconnect'
         \<or> \<not> isConnectionActive (mem w)
      then reject p ConnectionTimeout w else w)"

text \<open>The callback given to \<open>client.connect\<close>, run when the socket is connected.\<close>

definition on_connect :: "nat \<times> jsval \<times> jsval \<Rightarrow> world \<Rightarrow> world" where
  "on_connect cb w =
     (let w1 = client_write (Handshake (fst (snd cb)) (snd (snd cb)) (connectionId (mem w))) w
      in w1\<lparr>mem := (mem w1)\<lparr>client := (client (mem w1))
            \<lparr>dataListeners := dataListeners (client (mem w1)) @ [fst cb]\<rparr>\<rparr>\<rparr>)"

subsection \<open>_keepAcessTokenFresh\<close>

definition keepAcessTokenFresh :: "nat \<Rightarrow> world \<Rightarrow> world" where
  "keepAcessTokenFresh expiresIn w =
     (let (h, w1) = setTimeout expiresIn RefreshAccessToken w
      in w1\<lparr>mem := (mem w1)\<lparr>accessTokenTimeout := Some h\<rparr>\<rparr>)"

definition refresh_access_token :: "world \<Rightarrow> world" where
  "refresh_access_token w =
     (if isConnectionActive (mem w) then client_write ResendAccessToken w else w)"

subsection \<open>The data listener\<close>

text \<open>
  The listener of the \<open>connect\<close> call with promise \<open>p\<close>, up to its \<open>await\<close>. The
  payload is \<open>None\<close> when \<open>JSON.parse\<close> raises: the listener then ends before its
  first assignment. Otherwise it stores the credentials, starts the refresh timer,
  marks the connection active, resets the attempt counter and calls
  \<open>broker.connect\<close>.
\<close>

definition on_data :: "auth_response option \<Rightarrow> nat \<Rightarrow> world \<Rightarrow> world" where
  "on_data d p w =
     (case d of
        None \<Rightarrow> w
      | Some r \<Rightarrow>
         (let w1 = w\<lparr>mem := (mem w)\<lparr>connectionId := connection_id r,
                                      accessToken := access_token r\<rparr>\<rparr>;
              w2 = keepAcessTokenFresh (access_token_exp r) w1;
              w3 = w2\<lparr>mem := (mem w2)\<lparr>isConnectionActive := True, reconnectAttempts := 0\<rparr>\<rparr>;
              m = mem w3
          in w3\<lparr>brokerConnects := brokerConnects w3 @
               [(p, \<lparr>servers = toString (brokerHost m) @ '':'' @ show_nat (brokerPort m),
                     opt_reconnect = reconnect m,
                     maxReconnectAttempts = (if reconnect m then maxReconnect m else 0),
                     reconnectTimeWait = reconnectIntervalMs m,
                     timeout = timeoutMs m,
                     token = connectionToken m\<rparr>)]\<rparr>))"

text \<open>The rest of the listener, when the awaited \<open>broker.connect\<close> has settled.\<close>

definition broker_connected :: "nat \<Rightarrow> world \<Rightarrow> world" where
  "broker_connected i w =
     (if i < length (brokerConnects w)
      then (let (p, opts) = brokerConnects w ! i;
                w1 = w\<lparr>brokerConnects := take i (brokerConnects w) @ drop (Suc i) (brokerConnects w),
                       mem := (mem w)\<lparr>brokerConnection := Some opts\<rparr>\<rparr>
            in resolve p w1)
      else w)"

definition broker_failed :: "nat \<Rightarrow> error \<Rightarrow> world \<Rightarrow> world" where
  "broker_failed i ex w =
     (if i < length (brokerConnects w)
      then (let (p, opts) = brokerConnects w ! i;
                w1 = w\<lparr>brokerConnects := take i (brokerConnects w) @ drop (Suc i) (brokerConnects w)\<rparr>
            in reject p ex w1)
      else w)"

subsection \<open>close and _close\<close>

definition close :: "world \<Rightarrow> world" where
  "close w =
     (let c = (client (mem w))\<lparr>dataListeners := []\<rparr>;
          c = c\<lparr>errorListener := False\<rparr>;
          c = c\<lparr>closeListener := False\<rparr>;
          c = c\<lparr>destroyCalls := destroyCalls c + 1\<rparr>;
          w1 = clearTimeout (accessTokenTimeout (mem w)) (w\<lparr>mem := (mem w)\<lparr>client := c\<rparr>\<rparr>)
      in w1\<lparr>mem := (mem w1)
            \<lparr>accessToken := Null,
             connectionId := Null,
             isConnectionActive := False,
             accessTokenTimeout := None,
             reconnectAttempts := 0\<rparr>\<rparr>)"

text \<open>
  The argument \<open>_close\<close> gives to \<open>connect\<close> when its timer fires: the stored fields,
  without \<open>brokerHost\<close> and \<open>brokerPort\<close>.
\<close>

definition reconnect_config :: "memphis \<Rightarrow> config" where
  "reconnect_config m =
     \<lparr>cfg_host = host m,
      cfg_port = Some (port m),
      cfg_username = username m,
      cfg_brokerHost = Undefined,
      cfg_brokerPort = None,
      cfg_connectionToken = connectionToken m,
      cfg_reconnect = Some (reconnect m),
      cfg_maxReconnect = Some (maxReconnect m),
      cfg_reconnectIntervalMs = Some (reconnectIntervalMs m),
      cfg_timeoutMs = Some (timeoutMs m)\<rparr>"

definition reconnect_task :: "world \<Rightarrow> world" where
  "reconnect_task w = snd (connect (reconnect_config (mem w)) w)"

definition private_close :: "world \<Rightarrow> world" where
  "private_close w =
     (if reconnect (mem w) \<and> reconnectAttempts (mem w) < maxReconnect (mem w)
      then (let w1 = w\<lparr>mem := (mem w)\<lparr>reconnectAttempts := reconnectAttempts (mem w) + 1\<rparr>\<rparr>
            in snd (setTimeout (reconnectIntervalMs (mem w1)) Reconnect w1))
      else
        (let c = (client (mem w))\<lparr>dataListeners := []\<rparr>;
             c = c\<lparr>errorListener := False\<rparr>;
             c = c\<lparr>closeListener := False\<rparr>;
             c = c\<lparr>destroyCalls := destroyCalls c + 1\<rparr>;
             w1 = clearTimeout (accessTokenTimeout (mem w)) (w\<lparr>mem := (mem w)\<lparr>client := c\<rparr>\<rparr>)
         in w1\<lparr>mem := (mem w1)
               \<lparr>accessToken := Null,
                connectionId := Null,
                isConnectionActive := False,
                accessTokenTimeout := None,
                reconnectAttempts := 0\<rparr>\<rparr>))"

text \<open>The \<open>close\<close> listener the constructor registers on the socket.\<close>

definition on_close :: "world \<Rightarrow> world" where
  "on_close w = private_close (w\<lparr>mem := (mem w)\<lparr>isConnectionActive := False\<rparr>\<rparr>)"

subsection \<open>The event loop\<close>

text \<open>
  What can happen to a manager: the application calls \<open>connect\<close> or \<open>close\<close>, the
  socket emits \<open>connect\<close>, \<open>data\<close> or \<open>close\<close>, a pending timer fires, an awaited
  \<open>broker.connect\<close> settles. An event of the socket runs the listeners registered for
  it, in the order of registration; the \<open>connect\<close> callbacks are registered for one
  event only.
\<close>

datatype event =
    CallConnect config
  | CallClose
  | SocketConnect
  | SocketData "auth_response option"
  | SocketClose
  | TimerFires nat
  | BrokerReady nat
  | BrokerFails nat error

definition run_timer :: "timer \<Rightarrow> world \<Rightarrow> world" where
  "run_timer t w =
     (case t of
        ConnectTimeout p r m \<Rightarrow> connect_timeout p r m w
      | RefreshAccessToken \<Rightarrow> refresh_access_token w
      | Reconnect \<Rightarrow> reconnect_task w)"

definition fire :: "nat \<Rightarrow> world \<Rightarrow> world" where
  "fire h w =
     (case filter (\<lambda>t. fst t = h) (timers w) of
        [] \<Rightarrow> w
      | t # _ \<Rightarrow> run_timer (snd (snd t)) (w\<lparr>timers := filter (\<lambda>t. fst t \<noteq> h) (timers w)\<rparr>))"

definition step :: "event \<Rightarrow> world \<Rightarrow> world" where
  "step e w =
     (case e of
        CallConnect cfg \<Rightarrow> snd (connect cfg w)
      | CallClose \<Rightarrow> close w
      | SocketConnect \<Rightarrow>
          fold on_connect (connectListeners (client (mem w)))
            (w\<lparr>mem := (mem w)\<lparr>client := (client (mem w))\<lparr>connectListeners := []\<rparr>\<rparr>\<rparr>)
      | SocketData d \<Rightarrow> fold (on_data d) (dataListeners (client (mem w))) w
      | SocketClose \<Rightarrow> (if closeListener (client (mem w)) then on_close w else w)
      | TimerFires h \<Rightarrow> fire h w
      | BrokerReady i \<Rightarrow> broker_connected i w
      | BrokerFails i ex \<Rightarrow> broker_failed i ex w)"

definition run :: "event list \<Rightarrow> world \<Rightarrow> world" where
  "run es w = fold step es w"

section \<open>Requests to the control plane\<close>

text \<open>
  The argument of \<open>httpRequest\<close>: the method, the URL, the \<open>Authorization\<close> header
  and the body parameters in the order of the object literal. The helper itself and
  the control plane are collaborators: what they answer is an input of the model.
\<close>

record request =
  req_method :: string
  url :: string
  authorization :: string
  bodyParams :: "(string \<times> jsval) list"

text \<open>
  The object a handle holds as \<open>connection\<close>. Every handle is made by a method of
  the manager, which passes \<open>this\<close>; the streaming client is the object that
  \<open>connect\<close> stores in \<open>brokerConnection\<close>. \<open>has_method\<close> lists the methods
  of class \<open>Memphis\<close> and, for the streaming client, the two the sessions call.
\<close>

datatype objref = MemphisRef | JetStreamRef

fun has_method :: "objref \<Rightarrow> string \<Rightarrow> bool" where
  "has_method MemphisRef name =
     (name \<in> set [''connect'', ''_normalizeHost'', ''_keepAcessTokenFresh'', ''factory'',
                   ''station'', ''producer'', ''consumer'', ''_close'', ''close''])"
| "has_method JetStreamRef name = (name \<in> set [''publish'', ''pullSubscribe''])"

text \<open>\<open>this.connection.host\<close> and \<open>this.connection.accessToken\<close>, read when a request is made.\<close>

fun connection_host :: "objref \<Rightarrow> memphis \<Rightarrow> jsval" where
  "connection_host MemphisRef m = host m"
| "connection_host JetStreamRef m = Undefined"

fun connection_accessToken :: "objref \<Rightarrow> memphis \<Rightarrow> jsval" where
  "connection_accessToken MemphisRef m = accessToken m"
| "connection_accessToken JetStreamRef m = Undefined"

text \<open>
  The names bound in the module: its \<open>require\<close>s, constants and classes, and the
  globals of the platform that the file uses.
\<close>

definition module_scope :: "string list" where
  "module_scope =
     [''net'', ''events'', ''broker'', ''uuidv4'', ''httpRequest'', ''retentionTypes'',
      ''storageTypes'', ''Memphis'', ''Producer'', ''Consumer'', ''Message'', ''Factory'',
      ''Station'', ''require'', ''module'', ''console'', ''JSON'', ''Promise'', ''Error'',
      ''setTimeout'', ''clearTimeout'', ''setInterval'', ''clearInterval'']"

definition bound :: "string \<Rightarrow> bool" where
  "bound name = (name \<in> set module_scope)"

section \<open>class Factory and class Station\<close>

record factory_handle =
  f_connection :: objref
  f_name :: string

definition Factory :: "objref \<Rightarrow> string \<Rightarrow> factory_handle" where
  "Factory connection name = \<lparr>f_connection = connection, f_name = toLowerCase name\<rparr>"


record station_handle =
  s_connection :: objref
  s_name :: string

definition Station :: "objref \<Rightarrow> string \<Rightarrow> station_handle" where
  "Station connection name = \<lparr>s_connection = connection, s_name = toLowerCase name\<rparr>"


section \<open>class Producer\<close>

record producer_session =
  p_connection :: objref
  producerName :: string
  p_stationName :: string

definition Producer :: "objref \<Rightarrow> string \<Rightarrow> string \<Rightarrow> producer_session" where
  "Producer connection producerName' stationName =
     \<lparr>p_connection = connection,
      producerName = toLowerCase producerName',
      p_stationName = toLowerCase stationName\<rparr>"

text \<open>
  \<open>this.x\<close> on a producer, for the properties that hold a string: a property the
  object does not have reads as \<open>undefined\<close>.
\<close>

definition Producer_get :: "producer_session \<Rightarrow> string \<Rightarrow> jsval" where
  "Producer_get p x =
     (if x = ''producerName'' then Str (producerName p)
      else if x = ''stationName'' then Str (p_stationName p)
      else Undefined)"

text \<open>What the streaming client is asked to publish.\<close>

record publication =
  pub_subject :: string
  pub_message :: string
  msgID :: string
  ackWait :: nat

text \<open>
  \<open>produce\<close>: \<open>uuid\<close> is what \<open>uuidv4()\<close> returns on this call, \<open>answer\<close> the
  error of the transport if the publication fails, \<open>sent\<close> the publications made on
  the streaming client so far. Calling a method the object does not have raises a
  \<open>TypeError\<close>; the \<open>catch\<close> block throws again what it caught.
\<close>

definition produce ::
  "producer_session \<Rightarrow> string \<Rightarrow> nat option \<Rightarrow> string \<Rightarrow> error option \<Rightarrow> publication list
     \<Rightarrow> error + publication list" where
  "produce p message ackWaitSec uuid answer sent =
     (if \<not> has_method (p_connection p) ''publish''
      then Inl (TypeError ''this.connection.publish'')
      else (case answer of
              Some ex \<Rightarrow> Inl ex
            | None \<Rightarrow>
                Inr (sent @
                  [\<lparr>pub_subject = p_stationName p @ ''.final'',
                    pub_message = message,
                    msgID = uuid,
                    ackWait = (case ackWaitSec of None \<Rightarrow> 15 | Some n \<Rightarrow> n) * 1000 * 1000\<rparr>])))"

definition Producer_destroy :: "producer_session \<Rightarrow> memphis \<Rightarrow> request" where
  "Producer_destroy p m =
     \<lparr>req_method = ''POST'',
      url = ''http://'' @ toString (connection_host (p_connection p) m)
            @ ''/api/producers/destroyProducer'',
      authorization = ''Bearer '' @ toString (connection_accessToken (p_connection p) m),
      bodyParams = [(''name'', Producer_get p ''consumerName''),
                    (''station_name'', Producer_get p ''stationName'')]\<rparr>"

section \<open>class Consumer and class Message\<close>

text \<open>
  An \<open>EventEmitter\<close> keeps its listeners in the object the method is called on:
  \<open>on\<close> appends the listener to the listeners of its receiver, \<open>emit\<close> calls the
  listeners of its receiver for the event, in the order of registration, and raises
  the argument of an \<open>error\<close> event that has no listener. A listener is a number.
\<close>

type_synonym emitter = "(string \<times> nat) list"

definition listeners :: "emitter \<Rightarrow> string \<Rightarrow> nat list" where
  "listeners e ev = map snd (filter (\<lambda>r. fst r = ev) e)"

definition emitter_on :: "emitter \<Rightarrow> string \<Rightarrow> nat \<Rightarrow> emitter" where
  "emitter_on e ev l = e @ [(ev, l)]"

definition emit :: "emitter \<Rightarrow> string \<Rightarrow> 'a \<Rightarrow> (nat \<times> 'a) list" where
  "emit e ev a = map (\<lambda>l. (l, a)) (listeners e ev)"

datatype Message = Message string

text \<open>
  The consumer has two stores of listeners: the emitter it creates
  (\<open>this.eventEmitter\<close>), and its own, which \<open>this.on\<close> writes: that property is the
  \<open>on\<close> method of another emitter, taken off its object, so a call
  \<open>consumer.on(ev, l)\<close> runs it with the consumer as receiver.
\<close>

record consumer_session =
  c_connection :: objref
  c_stationName :: string
  consumerName :: string
  consumerGroup :: string
  pullIntervalMs :: nat
  batchSize :: nat
  batchMaxTimeToWaitMs :: nat
  eventEmitter :: emitter
  own_listeners :: emitter
  pullInterval :: "nat option"

text \<open>The assignments of the constructor, before it subscribes.\<close>

definition Consumer_fields ::
  "objref \<Rightarrow> string \<Rightarrow> string \<Rightarrow> string \<Rightarrow> nat \<Rightarrow> nat \<Rightarrow> nat \<Rightarrow> consumer_session" where
  "Consumer_fields connection stationName consumerName' consumerGroup'
       pullIntervalMs' batchSize' batchMaxTimeToWaitMs' =
     \<lparr>c_connection = connection,
      c_stationName = toLowerCase stationName,
      consumerName = toLowerCase consumerName',
      consumerGroup = toLowerCase consumerGroup',
      pullIntervalMs = pullIntervalMs',
      batchSize = batchSize',
      batchMaxTimeToWaitMs = batchMaxTimeToWaitMs',
      eventEmitter = [],
      own_listeners = [],
      pullInterval = None\<rparr>"

record subscription =
  sub_subject :: string
  mack :: bool
  durable_name :: string
  ack_wait :: nat

text \<open>
  The constructor. The call \<open>this.connection.pullSubscribe(subject, options)\<close> reads
  the method, evaluates the arguments and then calls: its options name \<open>nanos\<close>, and
  a name that is bound nowhere raises a \<open>ReferenceError\<close>; a method the object does
  not have raises a \<open>TypeError\<close> at the call. \<open>nanos\<close> is the conversion of
  milliseconds to nanoseconds of the streaming client.
\<close>

definition Consumer ::
  "objref \<Rightarrow> string \<Rightarrow> string \<Rightarrow> string \<Rightarrow> nat \<Rightarrow> nat \<Rightarrow> nat
     \<Rightarrow> error + consumer_session \<times> subscription" where
  "Consumer connection stationName consumerName' consumerGroup'
       pullIntervalMs' batchSize' batchMaxTimeToWaitMs' =
     (let c = Consumer_fields connection stationName consumerName' consumerGroup'
                pullIntervalMs' batchSize' batchMaxTimeToWaitMs'
      in if \<not> bound ''nanos'' then Inl (ReferenceError ''nanos'')
         else if \<not> has_method (c_connection c) ''pullSubscribe''
         then Inl (TypeError ''this.connection.pullSubscribe'')
         else Inr (c, \<lparr>sub_subject = c_stationName c @ ''.final'',
                       mack = True,
                       durable_name = (if consumerGroup c \<noteq> [] then consumerGroup c
                                       else consumerName c),
                       ack_wait = 4000 * 1000000\<rparr>))"

text \<open>\<open>consumer.on(ev, l)\<close>, the public way to register a listener.\<close>

definition Consumer_on :: "consumer_session \<Rightarrow> string \<Rightarrow> nat \<Rightarrow> consumer_session" where
  "Consumer_on c ev l = c\<lparr>own_listeners := emitter_on (own_listeners c) ev l\<rparr>"

text \<open>
  The \<open>then\<close> callback of the subscription: a first pull, the interval timer with
  handle \<open>h\<close>, and one \<open>message\<close> event for each message \<open>ms\<close> the subscription
  delivers, in that order. The result is the consumer, the pull made at once (batch,
  expires) and the calls of listeners.
\<close>

definition subscribed ::
  "consumer_session \<Rightarrow> nat \<Rightarrow> string list
     \<Rightarrow> consumer_session \<times> (nat \<times> nat) \<times> (nat \<times> Message) list" where
  "subscribed c h ms =
     (c\<lparr>pullInterval := Some h\<rparr>,
      (batchSize c, batchMaxTimeToWaitMs c),
      concat (map (\<lambda>m. emit (eventEmitter c) ''message'' (Message m)) ms))"

text \<open>
  The \<open>catch\<close> callback of the subscription: an \<open>error\<close> event on the emitter of
  the consumer. Without a listener there, \<open>emit\<close> raises the error inside the
  callback.
\<close>

definition subscription_failed :: "consumer_session \<Rightarrow> error \<Rightarrow> error + (nat \<times> error) list" where
  "subscription_failed c ex =
     (if listeners (eventEmitter c) ''error'' = [] then Inl ex
      else Inr (emit (eventEmitter c) ''error'' ex))"


section \<open>The methods of the manager that make handles\<close>

text \<open>
  Each method refuses a dead connection, sends its request and builds the handle when
  the helper has answered; \<open>answer\<close> is the error the helper raised or the \<open>name\<close>
  of its response. The request of each method, the argument it gives to \<open>httpRequest\<close>,
  is a definition of its own; the result of the method holds the request that was sent.
\<close>

definition factory_request :: "memphis \<Rightarrow> jsval \<Rightarrow> jsval option \<Rightarrow> request" where
  "factory_request m name description =
     \<lparr>req_method = ''POST'',
      url = ''http://'' @ toString (host m) @ '':'' @ show_nat (port m)
            @ ''/api/factories/createFactory'',
      authorization = ''Bearer '' @ toString (accessToken m),
      bodyParams = [(''name'', name),
                    (''description'', (case description of None \<Rightarrow> Str [] | Some d \<Rightarrow> d))]\<rparr>"

definition factory ::
  "memphis \<Rightarrow> jsval \<Rightarrow> jsval option \<Rightarrow> error + string \<Rightarrow> error + request \<times> factory_handle" where
  "factory m name description answer =
     (if \<not> isConnectionActive m then Inl ConnectionDead
      else (case answer of
              Inl ex \<Rightarrow> Inl ex
            | Inr response_name \<Rightarrow>
                Inr (factory_request m name description, Factory MemphisRef response_name)))"

definition station_request ::
  "memphis \<Rightarrow> jsval \<Rightarrow> jsval \<Rightarrow> jsval option \<Rightarrow> nat option \<Rightarrow> jsval option \<Rightarrow> nat option
     \<Rightarrow> bool option \<Rightarrow> nat option \<Rightarrow> request" where
  "station_request m name factoryName retentionType retentionValue storageType replicas
       dedupEnabled dedupWindowMs =
     \<lparr>req_method = ''POST'',
      url = ''http://'' @ toString (host m) @ '':'' @ show_nat (port m)
            @ ''/api/stations/createStation'',
      authorization = ''Bearer '' @ toString (accessToken m),
      bodyParams =
        [(''name'', name),
         (''factory_name'', factoryName),
         (''retention_type'',
            (case retentionType of None \<Rightarrow> Str ''message_age_sec'' | Some t \<Rightarrow> t)),
         (''retention_value'', Num (case retentionValue of None \<Rightarrow> 604800 | Some n \<Rightarrow> n)),
         (''storage_type'', (case storageType of None \<Rightarrow> Str ''file'' | Some t \<Rightarrow> t)),
         (''replicas'', Num (case replicas of None \<Rightarrow> 1 | Some n \<Rightarrow> n)),
         (''dedup_enabled'', Bool (case dedupEnabled of None \<Rightarrow> False | Some b \<Rightarrow> b)),
         (''dedup_window_in_ms'', Num (case dedupWindowMs of None \<Rightarrow> 0 | Some n \<Rightarrow> n))]\<rparr>"

definition station ::
  "memphis \<Rightarrow> jsval \<Rightarrow> jsval \<Rightarrow> jsval option \<Rightarrow> nat option \<Rightarrow> jsval option \<Rightarrow> nat option
     \<Rightarrow> bool option \<Rightarrow> nat option \<Rightarrow> error + string \<Rightarrow> error + request \<times> station_handle" where
  "station m name factoryName retentionType retentionValue storageType replicas
       dedupEnabled dedupWindowMs answer =
     (if \<not> isConnectionActive m then Inl ConnectionDead
      else (case answer of
              Inl ex \<Rightarrow> Inl ex
            | Inr response_name \<Rightarrow>
                Inr (station_request m name factoryName retentionType retentionValue
                       storageType replicas dedupEnabled dedupWindowMs,
                     Station MemphisRef response_name)))"

definition producer_request :: "memphis \<Rightarrow> string \<Rightarrow> string \<Rightarrow> request" where
  "producer_request m stationName producerName' =
     \<lparr>req_method = ''POST'',
      url = ''http://'' @ toString (host m) @ '':'' @ show_nat (port m)
            @ ''/api/producers/createProducer'',
      authorization = ''Bearer '' @ toString (accessToken m),
      bodyParams = [(''name'', Str producerName'),
                    (''station_name'', Str stationName),
                    (''connection_id'', connectionId m),
                    (''producer_type'', Str ''application'')]\<rparr>"

definition producer ::
  "memphis \<Rightarrow> string \<Rightarrow> string \<Rightarrow> error option \<Rightarrow> error + request \<times> producer_session" where
  "producer m stationName producerName' answer =
     (if \<not> isConnectionActive m then Inl ConnectionDead
      else (case answer of
              Some ex \<Rightarrow> Inl ex
            | None \<Rightarrow>
                Inr (producer_request m stationName producerName',
                     Producer MemphisRef producerName' stationName)))"

definition consumer_request :: "memphis \<Rightarrow> string \<Rightarrow> string \<Rightarrow> string \<Rightarrow> request" where
  "consumer_request m stationName consumerName' consumerGroup' =
     \<lparr>req_method = ''POST'',
      url = ''http://'' @ toString (host m) @ '':'' @ show_nat (port m)
            @ ''/api/consumers/createConsumer'',
      authorization = ''Bearer '' @ toString (accessToken m),
      bodyParams = [(''name'', Str consumerName'),
                    (''station_name'', Str stationName),
                    (''connection_id'', connectionId m),
                    (''consumer_type'', Str ''application''),
                    (''consumers_group'', Str consumerGroup')]\<rparr>"

definition consumer ::
  "memphis \<Rightarrow> string \<Rightarrow> string \<Rightarrow> string option \<Rightarrow> nat option \<Rightarrow> nat option \<Rightarrow> nat option
     \<Rightarrow> error option \<Rightarrow> error + request \<times> consumer_session \<times> subscription" where
  "consumer m stationName consumerName' consumerGroup' pullIntervalMs' batchSize'
       batchMaxTimeToWaitMs' answer =
     (if \<not> isConnectionActive m then Inl ConnectionDead
      else (let group = (case consumerGroup' of None \<Rightarrow> [] | Some g \<Rightarrow> g)
            in case answer of
                 Some ex \<Rightarrow> Inl ex
               | None \<Rightarrow>
                  (case Consumer MemphisRef stationName consumerName' group
                          (case pullIntervalMs' of None \<Rightarrow> 1000 | Some n \<Rightarrow> n)
                          (case batchSize' of None \<Rightarrow> 10 | Some n \<Rightarrow> n)
                          (case batchMaxTimeToWaitMs' of None \<Rightarrow> 5000 | Some n \<Rightarrow> n) of
                     Inl ex \<Rightarrow> Inl ex
                   | Inr (c, sub) \<Rightarrow>
                       Inr (consumer_request m stationName consumerName' group, c, sub))))"

section \<open>Vocabulary of the properties\<close>

text \<open>The worlds a sequence of events goes through, the first one included.\<close>

fun states :: "event list \<Rightarrow> world \<Rightarrow> world list" where
  "states [] w = [w]"
| "states (e # es) w = w # states es (step e w)"

definition inactive :: "world \<Rightarrow> bool" where
  "inactive w = (\<not> isConnectionActive (mem w))"

text \<open>
  Promise \<open>p\<close> waits for its timeout timer \<open>h\<close>: it is pending and the timer is the
  only one with that handle, or the timer has rejected it already; no awaited call of
  \<open>broker.connect\<close> belongs to it and the refresh timer is another one.
\<close>

definition waiting :: "nat \<Rightarrow> nat \<Rightarrow> bool \<Rightarrow> nat \<Rightarrow> world \<Rightarrow> bool" where
  "waiting p h r m w =
     (p < length (promises w) \<and> h < nextTimer w \<and> accessTokenTimeout (mem w) \<noteq> Some h
      \<and> list_all (\<lambda>b. fst b \<noteq> p) (brokerConnects w)
      \<and> (promises w ! p = Rejected ConnectionTimeout
         \<or> (promises w ! p = Pending
            \<and> map (\<lambda>t. snd (snd t)) (filter (\<lambda>t. fst t = h) (timers w)) = [ConnectTimeout p r m])))"

text \<open>
  What holds of every world a new manager can reach: the handles of the pending timers
  and of the refresh timer have been given out, and the listeners, callbacks and
  awaited calls belong to promises that exist.
\<close>

definition wellformed :: "world \<Rightarrow> bool" where
  "wellformed w =
     (list_all (\<lambda>t. fst t < nextTimer w) (timers w)
      \<and> (case accessTokenTimeout (mem w) of None \<Rightarrow> True | Some h \<Rightarrow> h < nextTimer w)
      \<and> list_all (\<lambda>b. fst b < length (promises w)) (brokerConnects w)
      \<and> list_all (\<lambda>q. q < length (promises w)) (dataListeners (client (mem w)))
      \<and> list_all (\<lambda>cb. fst cb < length (promises w)) (connectListeners (client (mem w))))"

definition settled :: "nat \<Rightarrow> error \<Rightarrow> world \<Rightarrow> bool" where
  "settled p x w = (p < length (promises w) \<and> promises w ! p = Rejected x)"








text \<open>Two names that differ in the case of their letters at most.\<close>

definition same_letters :: "string \<Rightarrow> string \<Rightarrow> bool" where
  "same_letters a b = list_all2 (\<lambda>c d. c = d \<or> lower_char c = d \<or> c = lower_char d) a b"

text \<open>A configuration that leaves every default in place, and a response to its handshake.\<close>

definition demo_config :: config where
  "demo_config =
     \<lparr>cfg_host = Str ''http://localhost'', cfg_port = None, cfg_username = Str ''root'',
      cfg_brokerHost = Str ''localhost'', cfg_brokerPort = None,
      cfg_connectionToken = Str ''memphis'', cfg_reconnect = None, cfg_maxReconnect = None,
      cfg_reconnectIntervalMs = None, cfg_timeoutMs = None\<rparr>"

definition demo_response :: auth_response where
  "demo_response = \<lparr>connection_id = Str ''c1'', access_token = Str ''jwt'', access_token_exp = 900000\<rparr>"

section \<open>Properties of the connection manager\<close>

subsection \<open>Frame lemmas\<close>

lemma mem_settle [simp]: "mem (settle p v w) = mem w"
  by (simp add: settle_def)

lemma mem_setTimeout [simp]: "mem (snd (setTimeout d t w)) = mem w"
  by (simp add: setTimeout_def)

lemma mem_clearTimeout [simp]: "mem (clearTimeout h w) = mem w"
  by (simp add: clearTimeout_def)

lemma normalizeHost_Undefined [simp]: "normalizeHost Undefined = Inl (TypeError ''host.startsWith'')"
  by (simp add: normalizeHost_def)

lemma connect_attempts [simp]:
  "reconnectAttempts (mem (snd (connect c w))) = reconnectAttempts (mem w)"
  by (simp add: connect_def connect_executor_def reject_def Let_def split: sum.splits)


lemma on_connect_fields [simp]:
  "reconnectAttempts (mem (on_connect cb w)) = reconnectAttempts (mem w)"
  "maxReconnect (mem (on_connect cb w)) = maxReconnect (mem w)"
  by (simp_all add: on_connect_def client_write_def Let_def)

lemma fold_on_connect_fields [simp]:
  "reconnectAttempts (mem (fold on_connect cbs w)) = reconnectAttempts (mem w)"
  "maxReconnect (mem (fold on_connect cbs w)) = maxReconnect (mem w)"
  by (induction cbs arbitrary: w) simp_all

lemma on_data_max [simp]: "maxReconnect (mem (on_data d p w)) = maxReconnect (mem w)"
  by (simp add: on_data_def keepAcessTokenFresh_def setTimeout_def Let_def split: option.splits)

























subsection \<open>A settled promise stays as it is\<close>

lemma settle_settled: "settled p x w \<Longrightarrow> settled p x (settle q v w)"
  by (auto simp: settled_def settle_def nth_list_update)

lemma connect_settled: "settled p x w \<Longrightarrow> settled p x (snd (connect c w))"
  by (auto simp: settled_def connect_def connect_executor_def setTimeout_def reject_def
        settle_def Let_def nth_append nth_list_update split: sum.splits)

lemma close_settled: "settled p x w \<Longrightarrow> settled p x (close w)"
  by (simp add: settled_def close_def clearTimeout_def Let_def)

lemma on_close_settled: "settled p x w \<Longrightarrow> settled p x (on_close w)"
  by (simp add: settled_def on_close_def private_close_def clearTimeout_def setTimeout_def Let_def)

lemma on_connect_promises [simp]: "promises (on_connect cb w) = promises w"
  by (simp add: on_connect_def client_write_def Let_def)

lemma fold_on_connect_promises [simp]: "promises (fold on_connect cbs w) = promises w"
  by (induction cbs arbitrary: w) simp_all

lemma on_data_promises [simp]: "promises (on_data d q w) = promises w"
  by (simp add: on_data_def keepAcessTokenFresh_def setTimeout_def Let_def split: option.splits)

lemma fold_on_data_promises [simp]: "promises (fold (on_data d) ps w) = promises w"
  by (induction ps arbitrary: w) simp_all

lemma run_timer_settled: "settled p x w \<Longrightarrow> settled p x (run_timer t w)"
  by (cases t)
     (simp_all add: run_timer_def connect_timeout_def reject_def settle_settled
        refresh_access_token_def reconnect_task_def connect_settled,
      simp add: settled_def client_write_def)

lemma fire_settled: "settled p x w \<Longrightarrow> settled p x (fire h w)"
proof -
  assume a: "settled p x w"
  have "settled p x (w\<lparr>timers := ts\<rparr>)" for ts using a by (simp add: settled_def)
  then show ?thesis using a by (simp add: fire_def run_timer_settled split: list.splits)
qed

lemma broker_settled:
  "settled p x w \<Longrightarrow> settled p x (broker_connected i w)"
  "settled p x w \<Longrightarrow> settled p x (broker_failed i ex w)"
proof -
  assume a: "settled p x w"
  have b: "settled p x (w\<lparr>brokerConnects := bs, mem := m\<rparr>)" for bs m
    using a by (simp add: settled_def)
  have c: "settled p x (w\<lparr>brokerConnects := bs\<rparr>)" for bs
    using a by (simp add: settled_def)
  show "settled p x (broker_connected i w)"
    using a b by (simp add: broker_connected_def resolve_def settle_settled Let_def split: prod.splits)
  show "settled p x (broker_failed i ex w)"
    using a c by (simp add: broker_failed_def reject_def settle_settled Let_def split: prod.splits)
qed

lemma step_settled: "settled p x w \<Longrightarrow> settled p x (step e w)"
proof (cases e)
  case SocketConnect
  assume "settled p x w"
  then show ?thesis using SocketConnect by (simp add: step_def settled_def)
next
  case (SocketData d)
  assume "settled p x w"
  then show ?thesis using SocketData by (simp add: step_def settled_def)
qed (simp_all add: step_def connect_settled close_settled on_close_settled fire_settled
       broker_settled)

lemma run_settled: "settled p x w \<Longrightarrow> settled p x (run es w)"
  unfolding run_def by (induction es arbitrary: w) (simp_all add: step_settled)


lemma settle_waiting:
  "waiting p h r m w \<Longrightarrow> q \<noteq> p \<or> v = Rejected ConnectionTimeout \<Longrightarrow> waiting p h r m (settle q v w)"
  by (auto simp: waiting_def settle_def nth_list_update)

lemma connect_waiting: "waiting p h r m w \<Longrightarrow> waiting p h r m (snd (connect c w))"
  by (auto simp: waiting_def connect_def connect_executor_def setTimeout_def reject_def
        settle_def Let_def nth_append nth_list_update split: sum.splits)

lemma filter_filter_other:
  "x \<noteq> Some h \<Longrightarrow> filter (\<lambda>t. Some (fst t) \<noteq> x \<and> fst t = h) ts = filter (\<lambda>t. fst t = h) ts"
  by (induction ts) auto

lemma close_waiting: "waiting p h r m w \<Longrightarrow> waiting p h r m (close w)"
  by (auto simp: waiting_def close_def clearTimeout_def Let_def filter_filter_other)

lemma on_close_waiting: "waiting p h r m w \<Longrightarrow> waiting p h r m (on_close w)"
  by (auto simp: waiting_def on_close_def private_close_def clearTimeout_def setTimeout_def
        Let_def filter_filter_other)

lemma on_connect_waiting: "waiting p h r m w \<Longrightarrow> waiting p h r m (on_connect cb w)"
  by (auto simp: waiting_def on_connect_def client_write_def Let_def)

lemma fold_on_connect_waiting: "waiting p h r m w \<Longrightarrow> waiting p h r m (fold on_connect cbs w)"
  by (induction cbs arbitrary: w) (simp_all add: on_connect_waiting)

lemma on_data_active: "isConnectionActive (mem (on_data (Some a) q w))"
  by (simp add: on_data_def keepAcessTokenFresh_def setTimeout_def Let_def)

lemma on_data_keeps_active:
  "isConnectionActive (mem w) \<Longrightarrow> isConnectionActive (mem (on_data d q w))"
  by (simp add: on_data_def keepAcessTokenFresh_def setTimeout_def Let_def split: option.splits)

lemma fold_on_data_keeps_active:
  "isConnectionActive (mem w) \<Longrightarrow> isConnectionActive (mem (fold (on_data d) ps w))"
  by (induction ps arbitrary: w) (simp_all add: on_data_keeps_active)

lemma fold_on_data_inactive:
  "\<not> isConnectionActive (mem (fold (on_data d) ps w)) \<Longrightarrow> fold (on_data d) ps w = w"
proof (cases d)
  case None
  have "fold (on_data None) ps w = w" by (induction ps) (simp_all add: on_data_def)
  then show ?thesis using None by simp
next
  case (Some a)
  assume n: "\<not> isConnectionActive (mem (fold (on_data d) ps w))"
  show ?thesis
  proof (cases ps)
    case Nil
    then show ?thesis by simp
  next
    case (Cons q qs)
    then have "isConnectionActive (mem (fold (on_data d) ps w))"
      using Some fold_on_data_keeps_active[OF on_data_active] by simp
    with n show ?thesis by simp
  qed
qed

lemma timers_filter_waiting:
  "waiting p h r m w \<Longrightarrow> h' \<noteq> h \<Longrightarrow> waiting p h r m (w\<lparr>timers := filter (\<lambda>t. fst t \<noteq> h') (timers w)\<rparr>)"
proof -
  have "filter (\<lambda>t. fst t = h) (filter (\<lambda>t. fst t \<noteq> h') ts) = filter (\<lambda>t. fst t = h) ts"
    if "h' \<noteq> h" for ts :: "(nat \<times> nat \<times> timer) list"
    using that by (induction ts) auto
  then show "waiting p h r m w \<Longrightarrow> h' \<noteq> h \<Longrightarrow> ?thesis"
    by (auto simp: waiting_def)
qed

lemma run_timer_waiting:
  "waiting p h r m w \<Longrightarrow> waiting p h r m (run_timer t w)"
  by (cases t)
     (simp_all add: run_timer_def connect_timeout_def reject_def settle_waiting
        refresh_access_token_def reconnect_task_def connect_waiting,
      simp add: waiting_def client_write_def)

lemma fire_other_waiting:
  assumes "waiting p h r m w" "h' \<noteq> h"
  shows "waiting p h r m (fire h' w)"
  using timers_filter_waiting[OF assms] assms(1)
  by (simp add: fire_def run_timer_waiting split: list.splits)

lemma fire_own:
  assumes "waiting p h r m w" "inactive w"
  shows "settled p ConnectionTimeout (fire h w)"
proof (cases "promises w ! p = Rejected ConnectionTimeout")
  case True
  then have "settled p ConnectionTimeout w" using assms(1) by (simp add: waiting_def settled_def)
  then show ?thesis by (rule fire_settled)
next
  case False
  then have pend: "promises w ! p = Pending"
    and tm: "map (\<lambda>t. snd (snd t)) (filter (\<lambda>t. fst t = h) (timers w)) = [ConnectTimeout p r m]"
    and len: "p < length (promises w)"
    using assms(1) by (auto simp: waiting_def)
  from tm obtain t where t: "filter (\<lambda>t. fst t = h) (timers w) = [t]" "snd (snd t) = ConnectTimeout p r m"
    by (cases "filter (\<lambda>t. fst t = h) (timers w)") auto
  show ?thesis
    using t pend len assms(2)
    by (simp add: fire_def run_timer_def connect_timeout_def reject_def settle_def settled_def
          inactive_def)
qed

lemma fire_waiting:
  assumes "waiting p h r m w" "inactive w"
  shows "waiting p h r m (fire h' w)"
proof (cases "h' = h")
  case False
  then show ?thesis using assms fire_other_waiting by simp
next
  case True
  have s: "settled p ConnectionTimeout (fire h w)" using fire_own[OF assms] .
  have frame: "h < nextTimer (fire h w) \<and> accessTokenTimeout (mem (fire h w)) \<noteq> Some h
      \<and> list_all (\<lambda>b. fst b \<noteq> p) (brokerConnects (fire h w))"
  proof (cases "filter (\<lambda>t. fst t = h) (timers w)")
    case Nil
    then show ?thesis using assms(1) by (simp add: fire_def waiting_def)
  next
    case (Cons t ts)
    have "promises w ! p = Rejected ConnectionTimeout \<or> snd (snd t) = ConnectTimeout p r m"
      using assms(1) Cons by (auto simp: waiting_def)
    then show ?thesis
    proof
      assume "snd (snd t) = ConnectTimeout p r m"
      then show ?thesis using assms(1) Cons
        by (simp add: fire_def run_timer_def connect_timeout_def reject_def settle_def waiting_def)
    next
      assume a: "promises w ! p = Rejected ConnectionTimeout"
      have "waiting p h r m (w\<lparr>timers := ts'\<rparr>)" for ts'
        using assms(1) a by (simp add: waiting_def)
      then have "waiting p h r m (fire h w)"
        using Cons by (simp add: fire_def run_timer_waiting)
      then show ?thesis by (simp add: waiting_def)
    qed
  qed
  show ?thesis using s frame True by (simp add: waiting_def settled_def)
qed

lemma broker_waiting:
  assumes "waiting p h r m w"
  shows "waiting p h r m (broker_connected i w)" and "waiting p h r m (broker_failed i ex w)"
proof -
  have rest: "list_all (\<lambda>b. fst b \<noteq> p) (take i (brokerConnects w) @ drop (Suc i) (brokerConnects w))"
    using assms by (auto simp: waiting_def list_all_iff dest: in_set_takeD in_set_dropD)
  have other: "fst (brokerConnects w ! i) \<noteq> p" if "i < length (brokerConnects w)"
    using assms that by (auto simp: waiting_def list_all_length)
  have a: "waiting p h r m (w\<lparr>brokerConnects := take i (brokerConnects w) @ drop (Suc i) (brokerConnects w),
              mem := (mem w)\<lparr>brokerConnection := x\<rparr>\<rparr>)" for x
    using assms rest by (simp add: waiting_def)
  have b: "waiting p h r m (w\<lparr>brokerConnects := take i (brokerConnects w) @ drop (Suc i) (brokerConnects w)\<rparr>)"
    using assms rest by (simp add: waiting_def)
  show "waiting p h r m (broker_connected i w)"
    using assms a other
    by (auto simp: broker_connected_def resolve_def Let_def intro!: settle_waiting split: prod.splits)
  show "waiting p h r m (broker_failed i ex w)"
    using assms b other
    by (auto simp: broker_failed_def reject_def Let_def intro!: settle_waiting split: prod.splits)
qed

lemma step_waiting:
  assumes "waiting p h r m w" "inactive w" "inactive (step e w)"
  shows "waiting p h r m (step e w)"
proof (cases e)
  case (CallConnect c)
  then show ?thesis using assms connect_waiting by (simp add: step_def)
next
  case CallClose
  then show ?thesis using assms close_waiting by (simp add: step_def)
next
  case SocketConnect
  have "waiting p h r m (w\<lparr>mem := (mem w)\<lparr>client := (client (mem w))\<lparr>connectListeners := []\<rparr>\<rparr>\<rparr>)"
    using assms(1) by (simp add: waiting_def)
  then show ?thesis using SocketConnect fold_on_connect_waiting by (simp add: step_def)
next
  case (SocketData d)
  then show ?thesis using assms fold_on_data_inactive[of d "dataListeners (client (mem w))" w]
    by (simp add: step_def inactive_def)
next
  case SocketClose
  then show ?thesis using assms on_close_waiting by (simp add: step_def)
next
  case (TimerFires h')
  then show ?thesis using assms fire_waiting by (simp add: step_def)
next
  case (BrokerReady i)
  then show ?thesis using assms broker_waiting by (simp add: step_def)
next
  case (BrokerFails i ex)
  then show ?thesis using assms broker_waiting by (simp add: step_def)
qed

lemma run_waiting:
  "waiting p h r m w \<Longrightarrow> list_all inactive (states es w) \<Longrightarrow> waiting p h r m (run es w)"
  unfolding run_def
proof (induction es arbitrary: w)
  case Nil
  then show ?case by simp
next
  case (Cons e es)
  have i: "inactive w" "list_all inactive (states es (step e w))" using Cons.prems(2) by simp_all
  then have "inactive (step e w)" by (cases es) simp_all
  then have "waiting p h r m (step e w)" using step_waiting Cons.prems(1) i(1) by simp
  then show ?case using Cons.IH i(2) by simp
qed

lemma run_inactive_last: "list_all inactive (states es w) \<Longrightarrow> inactive (run es w)"
  unfolding run_def by (induction es arbitrary: w) simp_all

lemma run_append: "run (es @ fs) w = run fs (run es w)"
  by (simp add: run_def)

lemma connect_starts_waiting:
  assumes "cfg_host c = Str a" "cfg_brokerHost c = Str b" "wellformed w"
    and "(case cfg_port c of None \<Rightarrow> 9000 | Some n \<Rightarrow> n) \<le> 65535"
  shows "waiting (length (promises w)) (nextTimer w)
           (case cfg_reconnect c of None \<Rightarrow> True | Some x \<Rightarrow> x)
           (case cfg_maxReconnect c of None \<Rightarrow> 3 | Some n \<Rightarrow> n) (snd (connect c w))"
proof -
  have f: "filter (\<lambda>t. fst t = nextTimer w) (timers w) = []"
    using assms(3) by (auto simp: wellformed_def list_all_iff filter_empty_conv)
  have g: "list_all (\<lambda>b. fst b \<noteq> length (promises w)) (brokerConnects w)"
    using assms(3) by (auto simp: wellformed_def list_all_iff)
  have h: "accessTokenTimeout (mem w) \<noteq> Some (nextTimer w)"
    using assms(3) by (auto simp: wellformed_def split: option.splits)
  have "\<exists>x. normalizeHost (cfg_host c) = Inr x" "\<exists>y. normalizeHost (cfg_brokerHost c) = Inr y"
    using assms(1,2) by (simp_all add: normalizeHost_def)
  then obtain x y where n: "normalizeHost (cfg_host c) = Inr x" "normalizeHost (cfg_brokerHost c) = Inr y"
    by blast
  show ?thesis
    using f g h n assms(4)
    by (simp add: waiting_def connect_def connect_executor_def setTimeout_def Let_def nth_append
          not_less [symmetric])
qed

subsection \<open>The worlds a manager can reach\<close>

lemma settle_wellformed: "wellformed w \<Longrightarrow> wellformed (settle p v w)"
  by (simp add: wellformed_def settle_def split: option.splits)

lemma connect_frame:
  "\<exists>d t. timers (snd (connect c w)) = timers w @ [(nextTimer w, d, t)]"
  "nextTimer (snd (connect c w)) = Suc (nextTimer w)"
  "brokerConnects (snd (connect c w)) = brokerConnects w"
  "length (promises (snd (connect c w))) = Suc (length (promises w))"
  "accessTokenTimeout (mem (snd (connect c w))) = accessTokenTimeout (mem w)"
  "dataListeners (client (mem (snd (connect c w)))) = dataListeners (client (mem w))"
  "connectListeners (client (mem (snd (connect c w)))) = connectListeners (client (mem w))
   \<or> (\<exists>u k. connectListeners (client (mem (snd (connect c w))))
          = connectListeners (client (mem w)) @ [(length (promises w), u, k)])"
  by (simp_all add: connect_def connect_executor_def setTimeout_def reject_def settle_def Let_def
        split: sum.splits)

lemma connect_wellformed:
  assumes "wellformed w"
  shows "wellformed (snd (connect c w))"
proof -
  obtain d t where tm: "timers (snd (connect c w)) = timers w @ [(nextTimer w, d, t)]"
    using connect_frame(1) by blast
  have a: "list_all (\<lambda>t. fst t < nextTimer (snd (connect c w))) (timers (snd (connect c w)))"
    using assms by (auto simp: tm connect_frame(2) wellformed_def list_all_iff)
  have b: "(case accessTokenTimeout (mem (snd (connect c w))) of None \<Rightarrow> True
            | Some h \<Rightarrow> h < nextTimer (snd (connect c w)))"
    using assms by (auto simp: connect_frame wellformed_def split: option.splits)
  have c: "list_all (\<lambda>b. fst b < length (promises (snd (connect c w)))) (brokerConnects (snd (connect c w)))"
    using assms by (auto simp: connect_frame wellformed_def list_all_iff)
  have d: "list_all (\<lambda>q. q < length (promises (snd (connect c w))))
             (dataListeners (client (mem (snd (connect c w)))))"
    using assms by (auto simp: connect_frame wellformed_def list_all_iff)
  have e: "list_all (\<lambda>cb. fst cb < length (promises (snd (connect c w))))
             (connectListeners (client (mem (snd (connect c w)))))"
  proof -
    have old: "list_all (\<lambda>cb. fst cb < Suc (length (promises w))) (connectListeners (client (mem w)))"
      using assms by (auto simp: wellformed_def list_all_iff less_SucI)
    show ?thesis using old connect_frame(7)[of c w] by (auto simp: connect_frame(4))
  qed
  show ?thesis using a b c d e by (simp add: wellformed_def)
qed
lemma close_wellformed: "wellformed w \<Longrightarrow> wellformed (close w)"
  by (auto simp: wellformed_def close_def clearTimeout_def Let_def list_all_iff split: option.splits)

lemma on_close_wellformed: "wellformed w \<Longrightarrow> wellformed (on_close w)"
  by (auto simp: wellformed_def on_close_def private_close_def clearTimeout_def setTimeout_def
        Let_def list_all_iff split: option.splits)

lemma fold_on_connect_wellformed:
  "wellformed w \<Longrightarrow> list_all (\<lambda>cb. fst cb < length (promises w)) cbs
   \<Longrightarrow> wellformed (fold on_connect cbs w)"
proof (induction cbs arbitrary: w)
  case Nil
  then show ?case by simp
next
  case (Cons cb cbs)
  have "wellformed (on_connect cb w)"
    using Cons.prems
    by (simp add: wellformed_def on_connect_def client_write_def Let_def split: option.splits)
  moreover have "list_all (\<lambda>cb. fst cb < length (promises (on_connect cb w))) cbs"
    using Cons.prems by simp
  ultimately show ?case using Cons.IH by simp
qed

lemma on_data_wellformed:
  "wellformed w \<Longrightarrow> q < length (promises w) \<Longrightarrow> wellformed (on_data d q w)"
  by (auto simp: wellformed_def on_data_def keepAcessTokenFresh_def setTimeout_def Let_def
        list_all_iff split: option.splits)

lemma fold_on_data_wellformed:
  "wellformed w \<Longrightarrow> list_all (\<lambda>q. q < length (promises w)) qs
   \<Longrightarrow> wellformed (fold (on_data d) qs w)"
proof (induction qs arbitrary: w)
  case Nil
  then show ?case by simp
next
  case (Cons q qs)
  have "wellformed (on_data d q w)" using Cons.prems on_data_wellformed by simp
  moreover have "list_all (\<lambda>q. q < length (promises (on_data d q w))) qs"
    using Cons.prems by simp
  ultimately show ?case using Cons.IH by simp
qed

lemma run_timer_wellformed: "wellformed w \<Longrightarrow> wellformed (run_timer t w)"
  by (cases t)
     (simp_all add: run_timer_def connect_timeout_def reject_def settle_wellformed
        refresh_access_token_def reconnect_task_def connect_wellformed,
      simp add: wellformed_def client_write_def split: option.splits)

lemma fire_wellformed: "wellformed w \<Longrightarrow> wellformed (fire h w)"
proof -
  assume a: "wellformed w"
  have "wellformed (w\<lparr>timers := filter (\<lambda>t. fst t \<noteq> h) (timers w)\<rparr>)"
    using a by (auto simp: wellformed_def list_all_iff split: option.splits)
  then show ?thesis using a by (simp add: fire_def run_timer_wellformed split: list.splits)
qed

lemma broker_wellformed:
  assumes "wellformed w"
  shows "wellformed (broker_connected i w)" and "wellformed (broker_failed i ex w)"
proof -
  have rest: "list_all (\<lambda>b. fst b < length (promises w))
      (take i (brokerConnects w) @ drop (Suc i) (brokerConnects w))"
    using assms by (auto simp: wellformed_def list_all_iff dest: in_set_takeD in_set_dropD)
  have a: "wellformed (w\<lparr>brokerConnects := take i (brokerConnects w) @ drop (Suc i) (brokerConnects w),
              mem := (mem w)\<lparr>brokerConnection := x\<rparr>\<rparr>)" for x
    using assms rest by (simp add: wellformed_def split: option.splits)
  have b: "wellformed (w\<lparr>brokerConnects := take i (brokerConnects w) @ drop (Suc i) (brokerConnects w)\<rparr>)"
    using assms rest by (simp add: wellformed_def split: option.splits)
  show "wellformed (broker_connected i w)"
    using assms a by (simp add: broker_connected_def resolve_def Let_def settle_wellformed split: prod.splits)
  show "wellformed (broker_failed i ex w)"
    using assms b by (simp add: broker_failed_def reject_def Let_def settle_wellformed split: prod.splits)
qed

lemma step_wellformed: "wellformed w \<Longrightarrow> wellformed (step e w)"
proof (cases e)
  case SocketConnect
  assume a: "wellformed w"
  have "wellformed (w\<lparr>mem := (mem w)\<lparr>client := (client (mem w))\<lparr>connectListeners := []\<rparr>\<rparr>\<rparr>)"
    using a by (simp add: wellformed_def split: option.splits)
  moreover have "list_all (\<lambda>cb. fst cb < length (promises w)) (connectListeners (client (mem w)))"
    using a by (simp add: wellformed_def)
  ultimately show ?thesis
    using SocketConnect
      fold_on_connect_wellformed[of "w\<lparr>mem := (mem w)\<lparr>client := (client (mem w))\<lparr>connectListeners := []\<rparr>\<rparr>\<rparr>"
        "connectListeners (client (mem w))"]
    by (simp add: step_def)
next
  case (SocketData d)
  assume a: "wellformed w"
  then have "list_all (\<lambda>q. q < length (promises w)) (dataListeners (client (mem w)))"
    by (simp add: wellformed_def)
  then show ?thesis using a SocketData fold_on_data_wellformed by (simp add: step_def)
qed (simp_all add: step_def connect_wellformed close_wellformed on_close_wellformed
       fire_wellformed broker_wellformed)

lemma run_wellformed: "wellformed w \<Longrightarrow> wellformed (run es w)"
  unfolding run_def by (induction es arbitrary: w) (simp_all add: step_wellformed)

lemma new_world_wellformed: "wellformed new_world"
  by (simp add: wellformed_def new_world_def Memphis_def new_socket_def)

subsection \<open>The timeout of connect\<close>

text \<open>
  C1. A manager has been through any events \<open>earlier\<close> since it was made; then
  \<open>connect\<close> is called with a configuration whose \<open>host\<close> and \<open>brokerHost\<close> are
  strings and whose port (9000 when left out) is at most 65535. The call returns a
  new promise, pending, and starts one timer with a new handle and the delay
  \<open>timeoutMs\<close>. If the connection is active in none of the worlds between the call
  and the moment that timer fires, whatever events \<open>before\<close> happen in between, then
  the promise is rejected with the timeout error, and it is still rejected with that
  error after any further events \<open>after\<close>: it does not resolve.
\<close>

theorem connect_timeout_rejects:
  assumes "cfg_host c = Str a" and "cfg_brokerHost c = Str b"
    and "(case cfg_port c of None \<Rightarrow> 9000 | Some n \<Rightarrow> n) \<le> 65535"
    and "list_all inactive (states before (snd (connect c (run earlier new_world))))"
  shows "fst (connect c (run earlier new_world)) = length (promises (run earlier new_world))
    \<and> promises (snd (connect c (run earlier new_world))) ! fst (connect c (run earlier new_world))
        = Pending
    \<and> filter (\<lambda>t. fst t = nextTimer (run earlier new_world))
         (timers (snd (connect c (run earlier new_world))))
        = [(nextTimer (run earlier new_world),
            (case cfg_timeoutMs c of None \<Rightarrow> 15000 | Some n \<Rightarrow> n),
            ConnectTimeout (fst (connect c (run earlier new_world)))
              (case cfg_reconnect c of None \<Rightarrow> True | Some x \<Rightarrow> x)
              (case cfg_maxReconnect c of None \<Rightarrow> 3 | Some n \<Rightarrow> n))]
    \<and> promises (run (before @ TimerFires (nextTimer (run earlier new_world)) # after)
                  (snd (connect c (run earlier new_world))))
          ! fst (connect c (run earlier new_world))
        = Rejected ConnectionTimeout"
proof -
  let ?start = "run earlier new_world"
  let ?w = "snd (connect c ?start)"
  let ?p = "length (promises ?start)"
  let ?h = "nextTimer ?start"
  have wf: "wellformed ?start" using run_wellformed[OF new_world_wellformed] .
  have p: "fst (connect c ?start) = ?p" by (simp add: connect_def Let_def)
  have "\<exists>x. normalizeHost (cfg_host c) = Inr x" "\<exists>y. normalizeHost (cfg_brokerHost c) = Inr y"
    using assms(1,2) by (simp_all add: normalizeHost_def)
  then obtain x y where n: "normalizeHost (cfg_host c) = Inr x" "normalizeHost (cfg_brokerHost c) = Inr y"
    by blast
  have f: "filter (\<lambda>t. fst t = ?h) (timers ?start) = []"
    using wf by (auto simp: wellformed_def list_all_iff filter_empty_conv)
  have pend: "promises ?w ! ?p = Pending"
    using n assms(3)
    by (simp add: connect_def connect_executor_def setTimeout_def Let_def nth_append
          not_less [symmetric])
  have tm: "filter (\<lambda>t. fst t = ?h) (timers ?w)
        = [(?h, (case cfg_timeoutMs c of None \<Rightarrow> 15000 | Some n \<Rightarrow> n),
            ConnectTimeout ?p (case cfg_reconnect c of None \<Rightarrow> True | Some x \<Rightarrow> x)
              (case cfg_maxReconnect c of None \<Rightarrow> 3 | Some n \<Rightarrow> n))]"
    using n f assms(3)
    by (simp add: connect_def connect_executor_def setTimeout_def Let_def not_less [symmetric])
  have w: "waiting ?p ?h (case cfg_reconnect c of None \<Rightarrow> True | Some x \<Rightarrow> x)
           (case cfg_maxReconnect c of None \<Rightarrow> 3 | Some n \<Rightarrow> n) (run before ?w)"
    using run_waiting[OF connect_starts_waiting[OF assms(1,2) wf assms(3)] assms(4)] .
  have "settled ?p ConnectionTimeout (fire ?h (run before ?w))"
    using fire_own[OF w run_inactive_last[OF assms(4)]] .
  then have "settled ?p ConnectionTimeout (run (before @ TimerFires ?h # after) ?w)"
    using run_settled[of ?p ConnectionTimeout "fire ?h (run before ?w)" after]
    by (simp add: run_def step_def)
  then show ?thesis using p pend tm by (simp add: settled_def)
qed

theorem connect_timeout_rejects_witness:
  "cfg_host demo_config = Str ''http://localhost'' \<and> cfg_brokerHost demo_config = Str ''localhost''
   \<and> (case cfg_port demo_config of None \<Rightarrow> 9000 | Some n \<Rightarrow> n) \<le> (65535::nat)
   \<and> list_all inactive (states [SocketConnect, TimerFires 1]
        (snd (connect demo_config (run [CallConnect demo_config, SocketClose] new_world))))
   \<and> fst (connect demo_config (run [CallConnect demo_config, SocketClose] new_world)) = 1
   \<and> nextTimer (run [CallConnect demo_config, SocketClose] new_world) = 2
   \<and> promises (run ([SocketConnect, TimerFires 1] @ TimerFires 2 #
                  [SocketData (Some demo_response), BrokerReady 0, BrokerReady 0])
                (snd (connect demo_config (run [CallConnect demo_config, SocketClose] new_world))))
         ! 1
       = Rejected ConnectionTimeout"
proof -
  have a: "cfg_host demo_config = Str ''http://localhost''" by (simp add: demo_config_def)
  have b: "cfg_brokerHost demo_config = Str ''localhost''" by (simp add: demo_config_def)
  have c: "(case cfg_port demo_config of None \<Rightarrow> 9000 | Some n \<Rightarrow> n) \<le> (65535::nat)"
    by (simp add: demo_config_def)
  have e: "run [CallConnect demo_config, SocketClose] new_world =
     \<lparr>mem = Memphis
        \<lparr>host := Str ''localhost/tcp'', brokerHost := Str ''localhost'',
         username := Str ''root'', connectionToken := Str ''memphis'',
         client := new_socket
           \<lparr>errorListener := True, closeListener := True,
            connectListeners := [(0, Str ''root'', Str ''memphis'')],
            connectCalls := [(9000, Str ''localhost/tcp'')]\<rparr>,
         reconnectAttempts := 1\<rparr>,
      promises = [Pending],
      timers = [(0, 15000, ConnectTimeout 0 True 3), (1, 200, Reconnect)],
      nextTimer = 2, brokerConnects = []\<rparr>"
    by (simp add: run_def step_def connect_def connect_executor_def setTimeout_def
          normalizeHost_def startsWith_def js_split_def index_def new_world_def Memphis_def
          new_socket_def demo_config_def on_close_def private_close_def Let_def)
  have i: "list_all inactive (states [SocketConnect, TimerFires 1]
        (snd (connect demo_config (run [CallConnect demo_config, SocketClose] new_world))))"
    unfolding e
    by (simp add: inactive_def step_def connect_def connect_executor_def setTimeout_def
          normalizeHost_def startsWith_def js_split_def index_def Memphis_def
          new_socket_def demo_config_def on_connect_def client_write_def fire_def run_timer_def
          reconnect_task_def reconnect_config_def reject_def settle_def Let_def)
  have p: "fst (connect demo_config (run [CallConnect demo_config, SocketClose] new_world)) = 1"
    unfolding e by (simp add: connect_def Let_def)
  have h: "nextTimer (run [CallConnect demo_config, SocketClose] new_world) = 2"
    unfolding e by simp
  note t = connect_timeout_rejects [OF a b c i,
      of "[SocketData (Some demo_response), BrokerReady 0, BrokerReady 0]", unfolded p h]
  show ?thesis using a b c i p h t by blast
qed

subsection \<open>Reconnection\<close>

text \<open>
  C2. What the reconnect timer of \<open>_close\<close> does, in any world: the configuration it
  gives to \<open>connect\<close> has no \<open>brokerHost\<close> and no \<open>brokerPort\<close>, so the call
  raises a \<open>TypeError\<close> in \<open>_normalizeHost\<close>: its promise is rejected and
  \<open>client.connect\<close> is not called. The sequence of \<open>connect\<close> is not run again.
\<close>

theorem reconnect_call_fails:
  "cfg_brokerHost (reconnect_config (mem w)) = Undefined
   \<and> cfg_brokerPort (reconnect_config (mem w)) = None
   \<and> promises (reconnect_task w) = promises w @ [Rejected (TypeError ''host.startsWith'')]
   \<and> connectCalls (client (mem (reconnect_task w))) = connectCalls (client (mem w))
   \<and> timers (run [SocketClose] (snd (connect demo_config new_world)))
       = [(0, 15000, ConnectTimeout 0 True 3), (1, 200, Reconnect)]
   \<and> reconnectAttempts (mem (run [SocketClose] (snd (connect demo_config new_world)))) = 1
   \<and> cfg_host (reconnect_config (mem (run [SocketClose] (snd (connect demo_config new_world)))))
       = Str ''localhost/tcp''
   \<and> host (mem (run [SocketClose, TimerFires 1] (snd (connect demo_config new_world))))
       = Str ''localhost/tcp/tcp''
   \<and> promises (run [SocketClose, TimerFires 1] (snd (connect demo_config new_world)))
       = [Pending, Rejected (TypeError ''host.startsWith'')]
   \<and> connectCalls (client (mem (run [SocketClose, TimerFires 1]
         (snd (connect demo_config new_world))))) = [(9000, Str ''localhost/tcp'')]"
proof -
  have general:
    "cfg_brokerHost (reconnect_config (mem w)) = Undefined
     \<and> cfg_brokerPort (reconnect_config (mem w)) = None
     \<and> promises (reconnect_task w) = promises w @ [Rejected (TypeError ''host.startsWith'')]
     \<and> connectCalls (client (mem (reconnect_task w))) = connectCalls (client (mem w))"
    by (simp add: reconnect_task_def reconnect_config_def connect_def connect_executor_def
          setTimeout_def reject_def settle_def normalizeHost_def Let_def nth_append
          split: sum.splits jsval.splits)
  have closed: "run [SocketClose] (snd (connect demo_config new_world)) =
     \<lparr>mem = Memphis
        \<lparr>host := Str ''localhost/tcp'', brokerHost := Str ''localhost'',
         username := Str ''root'', connectionToken := Str ''memphis'',
         client := new_socket
           \<lparr>errorListener := True, closeListener := True,
            connectListeners := [(0, Str ''root'', Str ''memphis'')],
            connectCalls := [(9000, Str ''localhost/tcp'')]\<rparr>,
         reconnectAttempts := 1\<rparr>,
      promises = [Pending],
      timers = [(0, 15000, ConnectTimeout 0 True 3), (1, 200, Reconnect)],
      nextTimer = 2, brokerConnects = []\<rparr>"
    by (simp add: run_def step_def connect_def connect_executor_def setTimeout_def
          normalizeHost_def startsWith_def js_split_def index_def new_world_def Memphis_def
          new_socket_def demo_config_def on_close_def private_close_def Let_def)
  have fired: "run [SocketClose, TimerFires 1] (snd (connect demo_config new_world)) =
     fire 1 (run [SocketClose] (snd (connect demo_config new_world)))"
    by (simp add: run_def step_def)
  have after: "host (mem (fire 1 (run [SocketClose] (snd (connect demo_config new_world)))))
        = Str ''localhost/tcp/tcp''
     \<and> promises (fire 1 (run [SocketClose] (snd (connect demo_config new_world))))
        = [Pending, Rejected (TypeError ''host.startsWith'')]
     \<and> connectCalls (client (mem (fire 1 (run [SocketClose]
          (snd (connect demo_config new_world)))))) = [(9000, Str ''localhost/tcp'')]"
    unfolding closed
    by (simp add: fire_def run_timer_def reconnect_task_def reconnect_config_def connect_def
          connect_executor_def setTimeout_def reject_def settle_def normalizeHost_def
          startsWith_def Memphis_def new_socket_def Let_def)
  have before: "timers (run [SocketClose] (snd (connect demo_config new_world)))
       = [(0, 15000, ConnectTimeout 0 True 3), (1, 200, Reconnect)]
     \<and> reconnectAttempts (mem (run [SocketClose] (snd (connect demo_config new_world)))) = 1
     \<and> cfg_host (reconnect_config (mem (run [SocketClose] (snd (connect demo_config new_world)))))
       = Str ''localhost/tcp''"
    unfolding closed by (simp add: reconnect_config_def Memphis_def)
  show ?thesis using general before after fired by simp
qed

subsection \<open>The attempt counter\<close>




subsection \<open>The terminal cleanup\<close>

text \<open>
  C9. When reconnecting is disabled or the attempts are used up, \<open>_close\<close> makes the
  transition of the public \<open>close\<close>, on the whole world: listeners, socket, timers,
  credentials, flags and counter. So does the \<open>close\<close> listener of the socket,
  which calls it.
\<close>

theorem terminal_cleanup_is_close:
  "\<not> (reconnect (mem w) \<and> reconnectAttempts (mem w) < maxReconnect (mem w))
   \<Longrightarrow> private_close w = close w \<and> on_close w = close w"
  by (auto simp add: private_close_def close_def on_close_def clearTimeout_def)

theorem terminal_cleanup_is_close_witness:
  "\<not> (reconnect (mem (new_world\<lparr>mem := Memphis\<lparr>reconnect := False\<rparr>\<rparr>))
       \<and> reconnectAttempts (mem (new_world\<lparr>mem := Memphis\<lparr>reconnect := False\<rparr>\<rparr>))
           < maxReconnect (mem (new_world\<lparr>mem := Memphis\<lparr>reconnect := False\<rparr>\<rparr>)))
   \<and> private_close (new_world\<lparr>mem := Memphis\<lparr>reconnect := False\<rparr>\<rparr>)
       = close (new_world\<lparr>mem := Memphis\<lparr>reconnect := False\<rparr>\<rparr>)
   \<and> on_close (new_world\<lparr>mem := Memphis\<lparr>reconnect := False\<rparr>\<rparr>)
       = close (new_world\<lparr>mem := Memphis\<lparr>reconnect := False\<rparr>\<rparr>)"
  using terminal_cleanup_is_close [of "new_world\<lparr>mem := Memphis\<lparr>reconnect := False\<rparr>\<rparr>"]
  by (simp add: new_world_def Memphis_def)


subsection \<open>The stored host\<close>











section \<open>Properties of the handles\<close>

lemma lower_char_idem: "lower_char (lower_char c) = lower_char c"
  by (simp add: lower_char_def)

lemma same_letters_lower: "same_letters a b \<Longrightarrow> toLowerCase a = toLowerCase b"
  unfolding same_letters_def toLowerCase_def
  by (induction a b rule: list_all2_induct) (auto simp: lower_char_idem)


text \<open>
  C8. The constructors of the producer, the consumer, the factory and the station
  store the names they are given in lower case, the consumer group as well. So names
  that differ in the case of their letters only give the same handle, the same
  publications and the same subscription.
\<close>

theorem names_stored_lower_case:
  assumes "same_letters a a'" and "same_letters b b'" and "same_letters g g'"
  shows "producerName (Producer conn a b) = toLowerCase a
    \<and> p_stationName (Producer conn a b) = toLowerCase b
    \<and> consumerName (Consumer_fields conn b a g i1 i2 i3) = toLowerCase a
    \<and> c_stationName (Consumer_fields conn b a g i1 i2 i3) = toLowerCase b
    \<and> consumerGroup (Consumer_fields conn b a g i1 i2 i3) = toLowerCase g
    \<and> f_name (Factory conn a) = toLowerCase a
    \<and> s_name (Station conn a) = toLowerCase a
    \<and> Producer conn a b = Producer conn a' b'
    \<and> Consumer_fields conn b a g i1 i2 i3 = Consumer_fields conn b' a' g' i1 i2 i3
    \<and> Factory conn a = Factory conn a'
    \<and> Station conn a = Station conn a'
    \<and> produce (Producer conn a b) = produce (Producer conn a' b')
    \<and> Consumer conn b a g i1 i2 i3 = Consumer conn b' a' g' i1 i2 i3"
  using same_letters_lower[OF assms(1)] same_letters_lower[OF assms(2)]
    same_letters_lower[OF assms(3)]
  by (simp add: Producer_def Consumer_fields_def Factory_def Station_def Consumer_def)

theorem names_stored_lower_case_witness:
  "same_letters ''Worker-1'' ''WORKER-1'' \<and> same_letters ''Orders'' ''ORDERS''
   \<and> same_letters ''Group_A'' ''group_a''
   \<and> producerName (Producer MemphisRef ''Worker-1'' ''Orders'') = ''worker-1''
   \<and> p_stationName (Producer MemphisRef ''Worker-1'' ''Orders'') = ''orders''
   \<and> consumerGroup (Consumer_fields MemphisRef ''Orders'' ''Worker-1'' ''Group_A'' 1000 10 5000) = ''group_a''
   \<and> Producer MemphisRef ''Worker-1'' ''Orders'' = Producer MemphisRef ''WORKER-1'' ''ORDERS''"
proof -
  have a: "same_letters ''Worker-1'' ''WORKER-1''" by code_simp
  have b: "same_letters ''Orders'' ''ORDERS''" by code_simp
  have g: "same_letters ''Group_A'' ''group_a''" by code_simp
  have e: "toLowerCase ''Worker-1'' = ''worker-1''" "toLowerCase ''Orders'' = ''orders''"
    "toLowerCase ''Group_A'' = ''group_a''" by code_simp+
  note t = names_stored_lower_case [OF a b g, of MemphisRef 1000 10 5000, unfolded e]
  show ?thesis using a b g t by blast
qed


text \<open>
  C7. The request of \<open>Producer.destroy\<close> reads the property \<open>consumerName\<close>, which a
  producer does not have: the \<open>name\<close> of its body is \<open>undefined\<close>, not the name of
  the producer.
\<close>

theorem producer_destroy_name_undefined:
  "bodyParams (Producer_destroy (Producer conn pn sn) m) =
     [(''name'', Undefined), (''station_name'', Str (toLowerCase sn))]"
  by (simp add: Producer_destroy_def Producer_get_def Producer_def)


text \<open>
  C5. A producer made by the manager holds the manager as \<open>connection\<close>, and the
  manager has no method \<open>publish\<close>: every call of \<open>produce\<close> raises a
  \<open>TypeError\<close> and publishes nothing. Were the connection the streaming client,
  the publication would go to the subject of the station with the identifier, and
  with \<open>ackWaitSec\<close> times 1000000 as \<open>ackWait\<close>.
\<close>

theorem produce_raises_type_error:
  "(case producer m sn pn answer of
      Inl ex \<Rightarrow> True
    | Inr (rq, p) \<Rightarrow> produce p message ackWaitSec uuid reply sent
                       = Inl (TypeError ''this.connection.publish''))
   \<and> produce (Producer MemphisRef pn sn) message ackWaitSec uuid reply sent
       = Inl (TypeError ''this.connection.publish'')
   \<and> produce (Producer JetStreamRef pn sn) message (Some 2) uuid None sent
       = Inr (sent @ [\<lparr>pub_subject = toLowerCase sn @ ''.final'', pub_message = message,
                       msgID = uuid, ackWait = 2000000\<rparr>])"
  by (simp add: producer_def produce_def Producer_def split: option.splits)


text \<open>
  C4. The constructor of the consumer raises a \<open>ReferenceError\<close> before it
  subscribes. And a listener registered with \<open>on\<close> is stored on the consumer, not on
  the emitter the messages are emitted on: whatever messages the subscription
  delivers, no listener registered with \<open>on\<close> is called.
\<close>

theorem consumer_on_listener_never_called:
  "Consumer MemphisRef sn cn g i b t = Inl (ReferenceError ''nanos'')
   \<and> snd (snd (subscribed (Consumer_on (Consumer_fields conn sn cn g i b t) ''message'' l) h ms)) = []
   \<and> listeners (own_listeners (Consumer_on (Consumer_fields conn sn cn g i b t) ''message'' l))
        ''message'' = [l]"
  by (simp add: Consumer_def bound_def module_scope_def subscribed_def Consumer_on_def
        Consumer_fields_def emit_def listeners_def emitter_on_def)


text \<open>
  C6. On an active connection, when the control plane has accepted the consumer,
  \<open>consumer\<close> raises the \<open>ReferenceError\<close> of the constructor to its caller. And
  the \<open>catch\<close> callback of a failed subscription emits \<open>error\<close> on an emitter
  where \<open>on\<close> has registered no listener, so the error is raised in the callback.
\<close>

theorem consumer_creation_raises:
  "consumer (m\<lparr>isConnectionActive := True\<rparr>) sn cn g i b t None = Inl (ReferenceError ''nanos'')
   \<and> subscription_failed (Consumer_on (Consumer_fields conn sn cn cg i' b' t') ''error'' l) ex = Inl ex"
  by (simp add: consumer_def Consumer_def bound_def module_scope_def subscription_failed_def
        Consumer_on_def Consumer_fields_def listeners_def)



end
